theory Spec2Isabelle
  imports Complex_Main
begin

section \<open>Python values as the simulator sees them\<close>

text \<open>
  The simulator (\<^verbatim>\<open>simulator/pivot_device_sim.py\<close>) receives MQTT messages, parses the
  payload with \<^verbatim>\<open>json.loads\<close> and answers on acknowledgment topics. The values that
  \<^verbatim>\<open>json.loads\<close> can return are modelled by \<open>json\<close>: Python's \<^verbatim>\<open>None\<close> is \<open>JNull\<close>,
  a \<^verbatim>\<open>dict\<close> is an association list in insertion order (a lookup reads the first
  entry of a key; a dict holds a key once). A \<^verbatim>\<open>str\<close> is a \<open>string\<close>: the bytes of
  its UTF-8 encoding, code point by code point, so that equality, concatenation, the
  empty text and the ASCII characters are what they are in Python. A float is a real
  number; the special floats NaN and Infinity, which \<^verbatim>\<open>json.loads\<close> also accepts,
  are non-zero and behave like any non-zero \<open>JFloat\<close> in everything the simulator does
  with them.
\<close>

datatype json =
    JNull
  | JBool bool
  | JInt int
  | JFloat real
  | JStr string
  | JArr "json list"
  | JObj "(string \<times> json) list"

datatype py_error = AttributeError | OSError | OverflowError | ValueError

text \<open>Truth value testing, as \<^verbatim>\<open>x or y\<close> and \<^verbatim>\<open>not x\<close> use it.\<close>

fun truthy :: "json \<Rightarrow> bool" where
  "truthy JNull = False"
| "truthy (JBool b) = b"
| "truthy (JInt n) = (n \<noteq> 0)"
| "truthy (JFloat x) = (x \<noteq> 0)"
| "truthy (JStr s) = (s \<noteq> [])"
| "truthy (JArr xs) = (xs \<noteq> [])"
| "truthy (JObj kvs) = (kvs \<noteq> [])"

text \<open>\<^verbatim>\<open>x or y\<close>\<close>

definition py_or :: "json \<Rightarrow> json \<Rightarrow> json" where
  "py_or x y = (if truthy x then x else y)"

text \<open>
  \<^verbatim>\<open>d.get(key, default)\<close>: only a dict has the method; on any other value the attribute
  lookup raises \<^verbatim>\<open>AttributeError\<close>. \<^verbatim>\<open>d.get(key)\<close> is \<open>py_get d key JNull\<close>.
\<close>

fun py_get :: "json \<Rightarrow> string \<Rightarrow> json \<Rightarrow> py_error + json" where
  "py_get (JObj kvs) k dflt = Inr (case map_of kvs k of None \<Rightarrow> dflt | Some v \<Rightarrow> v)"
| "py_get _ k dflt = Inl AttributeError"

text \<open>
  \<^verbatim>\<open>x.upper()\<close>, \<^verbatim>\<open>x.lower()\<close>, \<^verbatim>\<open>x.strip()\<close> on a value that came out of a dict: a
  \<^verbatim>\<open>str\<close> has the method, every other JSON value raises \<^verbatim>\<open>AttributeError\<close>.
\<close>

fun str_method :: "(string \<Rightarrow> string) \<Rightarrow> json \<Rightarrow> py_error + string" where
  "str_method f (JStr s) = Inr (f s)"
| "str_method f _ = Inl AttributeError"

section \<open>The library\<close>

text \<open>
  The functions of Python's library that the simulator calls and whose result matters
  are parameters of the model:
  \<^item> \<open>utf8_decode\<close> is \<^verbatim>\<open>bytes.decode("utf-8", errors="replace")\<close>, which never raises;
  \<^item> \<open>json_loads\<close> is \<^verbatim>\<open>json.loads\<close>, with \<open>None\<close> for every exception it raises (the
    message callback catches \<^verbatim>\<open>Exception\<close>);
  \<^item> \<open>str_upper\<close>, \<open>str_lower\<close>, \<open>str_strip\<close> are \<^verbatim>\<open>str.upper\<close>, \<^verbatim>\<open>str.lower\<close> and
    \<^verbatim>\<open>str.strip\<close>, which work on all of Unicode;
  \<^item> \<open>time_sleep\<close> is \<^verbatim>\<open>time.sleep\<close>: \<open>None\<close> when it sleeps for the duration and
    returns, the exception when it refuses the duration (\<^verbatim>\<open>OverflowError\<close> for one too
    large for the clock, \<^verbatim>\<open>ValueError\<close> for a negative one).
\<close>

record pylib =
  utf8_decode :: "string \<Rightarrow> string"
  json_loads :: "string \<Rightarrow> json option"
  str_upper :: "string \<Rightarrow> string"
  str_lower :: "string \<Rightarrow> string"
  str_strip :: "string \<Rightarrow> string"
  time_sleep :: "real \<Rightarrow> py_error option"

section \<open>Configuration, topics and the broker client\<close>

text \<open>The command line (\<^verbatim>\<open>parse_args\<close>); \<^verbatim>\<open>--farm-id\<close>, \<^verbatim>\<open>--user\<close>, \<^verbatim>\<open>--password\<close> are required.\<close>

record args =
  host :: string
  port :: int
  farm_id :: string
  user :: string
  password :: string
  latency :: real
  random_lag :: real
  drop_rate :: real
  motor_fail :: bool
  cafile :: "string option"
  client_id :: "string option"

text \<open>The topics \<^verbatim>\<open>PivotSim.__init__\<close> derives from the farm id.\<close>

definition t_status :: "args \<Rightarrow> string" where
  "t_status a = ''farm/'' @ farm_id a @ ''/status''"

definition t_dev_status :: "args \<Rightarrow> string" where
  "t_dev_status a = ''farm/'' @ farm_id a @ ''/device/status''"

definition t_control :: "args \<Rightarrow> string" where
  "t_control a = ''farm/'' @ farm_id a @ ''/control''"

definition t_device :: "args \<Rightarrow> string" where
  "t_device a = ''farm/'' @ farm_id a @ ''/device''"

definition t_motor_ctrl :: "args \<Rightarrow> string" where
  "t_motor_ctrl a = ''farm/'' @ farm_id a @ ''/motor/+/control''"

definition t_ack :: "args \<Rightarrow> string" where
  "t_ack a = ''farm/'' @ farm_id a @ ''/ack''"

definition t_err :: "args \<Rightarrow> string" where
  "t_err a = ''farm/'' @ farm_id a @ ''/err''"

text \<open>
  \<^verbatim>\<open>re_motor\<close> is \<^verbatim>\<open>^farm/<escaped farm>/motor/([^/]+)/control$\<close>, applied with \<^verbatim>\<open>match\<close>:
  the literal prefix, a non-empty run of characters other than the slash (the group),
  then \<^verbatim>\<open>/control\<close> at the end of the topic, where Python's \<^verbatim>\<open>$\<close> also accepts one
  final newline. The result is \<^verbatim>\<open>m.group(1)\<close>, or \<open>None\<close> when there is no match.
\<close>

fun strip_prefix :: "string \<Rightarrow> string \<Rightarrow> string option" where
  "strip_prefix [] s = Some s"
| "strip_prefix (p # ps) [] = None"
| "strip_prefix (p # ps) (c # cs) = (if p = c then strip_prefix ps cs else None)"

definition re_motor_match :: "args \<Rightarrow> string \<Rightarrow> string option" where
  "re_motor_match a topic =
     (case strip_prefix (''farm/'' @ farm_id a @ ''/motor/'') topic of
        None \<Rightarrow> None
      | Some rest \<Rightarrow>
          (let grp = takeWhile (\<lambda>c. c \<noteq> CHR ''/'') rest;
               tl = dropWhile (\<lambda>c. c \<noteq> CHR ''/'') rest
           in if grp \<noteq> [] \<and> (tl = ''/control'' \<or> tl = ''/control'' @ [CHR 0x0A])
              then Some grp else None))"

text \<open>
  What the simulator does to the outside is a list of events, in program order: the
  calls into the paho client and \<^verbatim>\<open>time.sleep\<close>. \<open>Publish topic obj qos retain\<close> is
  \<^verbatim>\<open>client.publish(topic, json.dumps(obj, separators=(",", ":")), qos, retain)\<close> and
  \<open>WillSet topic obj qos retain\<close> is \<^verbatim>\<open>client.will_set(topic, json.dumps(obj), qos, retain)\<close>;
  both carry the object that is serialised. An event is a call that returned; a call
  that raises is the exception of the outcome. Console output is not an event.
\<close>

datatype event =
    Sleep real
  | Publish string json nat bool
  | Subscribe string nat
  | ClientNew string
  | UsernamePwSet string string
  | WillSet string json nat bool
  | TlsSet string
  | TlsSetContext
  | Connect string int nat
  | LoopStart
  | LoopStop
  | Disconnect

text \<open>
  A method call ends by returning or by an exception that leaves it; either way it has
  emitted a list of events.
\<close>

datatype outcome = Outcome (trace: "event list") (raised: "py_error option")

definition returns :: "event list \<Rightarrow> outcome" where
  "returns evs = Outcome evs None"

text \<open>
  \<open>attempt r evs k\<close>: evaluate an expression that may raise after the events \<open>evs\<close>
  have been emitted; the exception leaves the method, a value goes on to \<open>k\<close>.
\<close>

definition attempt :: "py_error + 'a \<Rightarrow> event list \<Rightarrow> ('a \<Rightarrow> outcome) \<Rightarrow> outcome" where
  "attempt r evs k = (case r of Inl e \<Rightarrow> Outcome evs (Some e) | Inr x \<Rightarrow> k x)"

text \<open>\<^verbatim>\<open>PivotSim.publish\<close>, with the defaults \<^verbatim>\<open>qos=0, retain=False\<close> passed explicitly.\<close>

definition publish :: "string \<Rightarrow> json \<Rightarrow> nat \<Rightarrow> bool \<Rightarrow> event list" where
  "publish topic obj qos retain = [Publish topic obj qos retain]"

section \<open>Fault injection\<close>

text \<open>
  The two uses of the random generator take the value drawn by \<^verbatim>\<open>random.random()\<close>, a
  number in \<open>[0, 1)\<close>, as an argument. \<^verbatim>\<open>random.uniform(a, b)\<close> is
  \<^verbatim>\<open>a + (b - a) * random()\<close>. Floats are read as the real numbers they denote: the
  comparisons, \<^verbatim>\<open>max\<close> and \<^verbatim>\<open>min\<close> are exact on them, the sum that is slept is not
  rounded here.
\<close>

definition uniform :: "real \<Rightarrow> real \<Rightarrow> real \<Rightarrow> real" where
  "uniform lo hi v = lo + (hi - lo) * v"

definition sleep_latency :: "pylib \<Rightarrow> args \<Rightarrow> real \<Rightarrow> py_error + event list" where
  "sleep_latency L a v =
     (let base = max 0 (latency a);
          jitter = uniform 0 (max 0 (random_lag a)) v
      in case time_sleep L (base + jitter) of
           None \<Rightarrow> Inr [Sleep (base + jitter)]
         | Some e \<Rightarrow> Inl e)"

definition maybe_drop :: "args \<Rightarrow> real \<Rightarrow> bool" where
  "maybe_drop a u = (u < max 0 (min 1 (drop_rate a)))"

section \<open>Command handlers\<close>

text \<open>
  Each handler takes the library, the configuration, the draw \<open>u\<close> of \<^verbatim>\<open>_maybe_drop\<close>,
  the draw \<open>v\<close> of \<^verbatim>\<open>_sleep_latency\<close> and the parsed payload \<open>d\<close>.
\<close>

definition handle_pivot_cmd :: "pylib \<Rightarrow> args \<Rightarrow> real \<Rightarrow> real \<Rightarrow> json \<Rightarrow> outcome" where
  "handle_pivot_cmd L a u v d =
     attempt (py_get d ''corr'' JNull) [] (\<lambda>c.
       let corr = py_or c (JStr '''') in
       if maybe_drop a u then returns []
       else
         attempt (sleep_latency L a v) [] (\<lambda>slept.
         attempt (py_get d ''run'' (JStr '''')) slept (\<lambda>r.
         attempt (str_method (str_lower L) r) slept (\<lambda>low.
           let note = ''pivot '' @ low @ '' accepted'' in
           returns (slept @ publish (t_ack a)
             (JObj [(''corr'', corr), (''ok'', JBool True), (''note'', JStr note)]) 0 False)))))"

definition handle_device_cmd :: "pylib \<Rightarrow> args \<Rightarrow> real \<Rightarrow> real \<Rightarrow> json \<Rightarrow> outcome" where
  "handle_device_cmd L a u v d =
     attempt (py_get d ''corr'' JNull) [] (\<lambda>c.
       let corr = py_or c (JStr '''') in
       attempt (py_get d ''action'' JNull) [] (\<lambda>x.
       attempt (str_method (str_upper L) (py_or x (JStr ''''))) [] (\<lambda>action.
       attempt (py_get d ''serial'' JNull) [] (\<lambda>y.
       attempt (str_method (str_strip L) (py_or y (JStr ''''))) [] (\<lambda>serial.
         if maybe_drop a u then returns []
         else
           attempt (sleep_latency L a v) [] (\<lambda>slept.
             if action = [] \<or> serial = [] then
               returns (slept @ publish (t_err a)
                 (JObj [(''corr'', corr), (''ok'', JBool False),
                        (''reason'', JStr ''missing action/serial'')]) 0 False)
             else
               let note = action @ '' ok'' in
               returns (slept @ publish (t_ack a)
                 (JObj [(''corr'', corr), (''ok'', JBool True), (''note'', JStr note)])
                 0 False)))))))"

definition handle_motor_cmd ::
  "pylib \<Rightarrow> args \<Rightarrow> real \<Rightarrow> real \<Rightarrow> string \<Rightarrow> json \<Rightarrow> outcome" where
  "handle_motor_cmd L a u v motor_id d =
     attempt (py_get d ''corr'' JNull) [] (\<lambda>c.
       let corr = py_or c (JStr '''') in
       attempt (py_get d ''command'' JNull) [] (\<lambda>x.
       attempt (str_method (str_upper L) (py_or x (JStr ''''))) [] (\<lambda>cmd.
         let t_ack = ''farm/'' @ farm_id a @ ''/motor/'' @ motor_id @ ''/ack'';
             t_err = ''farm/'' @ farm_id a @ ''/motor/'' @ motor_id @ ''/err''
         in
         if maybe_drop a u then returns []
         else
           attempt (sleep_latency L a v) [] (\<lambda>slept.
             if motor_fail a \<and> cmd = ''START_MOTOR'' then
               returns (slept @ publish t_err
                 (JObj [(''corr'', corr), (''ok'', JBool False),
                        (''reason'', JStr ''sim motor fault'')]) 0 False)
             else
               returns (slept @ publish t_ack
                 (JObj [(''corr'', corr), (''ok'', JBool True),
                        (''note'', JStr ''sim motor ok'')]) 0 False)))))"

section \<open>Message callback\<close>

text \<open>\<^verbatim>\<open>data.get("type") == name\<close>\<close>

definition type_is :: "json \<Rightarrow> string \<Rightarrow> py_error + bool" where
  "type_is data name =
     (case py_get data ''type'' JNull of Inl e \<Rightarrow> Inl e | Inr t \<Rightarrow> Inr (t = JStr name))"

text \<open>
  \<^verbatim>\<open>_on_message\<close>. Python's \<^verbatim>\<open>and\<close> evaluates \<^verbatim>\<open>data.get\<close> only when the topic test
  before it is true.
\<close>

definition on_message :: "pylib \<Rightarrow> args \<Rightarrow> real \<Rightarrow> real \<Rightarrow> string \<Rightarrow> string \<Rightarrow> outcome" where
  "on_message L a u v topic payload =
     (let text = utf8_decode L payload in
      case json_loads L (if text = [] then ''{}'' else text) of
        None \<Rightarrow> returns []
      | Some data \<Rightarrow>
          attempt (if topic = t_control a then type_is data ''PIVOT_CMD'' else Inr False) []
            (\<lambda>is_pivot.
              if is_pivot then handle_pivot_cmd L a u v data
              else
                attempt (if topic = t_device a then type_is data ''DEVICE_CMD'' else Inr False) []
                  (\<lambda>is_device.
                    if is_device then handle_device_cmd L a u v data
                    else
                      (case re_motor_match a topic of
                         None \<Rightarrow> returns []
                       | Some motor_id \<Rightarrow>
                           attempt (type_is data ''MOTOR_CMD'') [] (\<lambda>is_motor.
                             if is_motor then handle_motor_cmd L a u v motor_id data
                             else returns [])))))"

section \<open>Connection lifecycle\<close>

text \<open>
  \<^verbatim>\<open>connect\<close>. \<open>rnd\<close> is the decimal text of \<^verbatim>\<open>random.randint(1000, 999999)\<close>. \<open>tls_ok\<close>
  says whether the TLS setup returns (\<^verbatim>\<open>tls_set\<close> raises on a CA file it cannot load)
  and \<open>reachable\<close> whether \<^verbatim>\<open>client.connect\<close> returns (it raises an \<^verbatim>\<open>OSError\<close> when the
  broker cannot be reached); either exception leaves \<^verbatim>\<open>connect\<close> and \<^verbatim>\<open>main\<close>. The
  calls before them (the constructor of the paho-mqtt 1.x client the program is written
  for, \<^verbatim>\<open>username_pw_set\<close> and \<^verbatim>\<open>will_set\<close> with a non-empty topic, a text payload and
  QoS 1) return.
\<close>

definition connect :: "args \<Rightarrow> string \<Rightarrow> bool \<Rightarrow> bool \<Rightarrow> outcome" where
  "connect a rnd tls_ok reachable =
     (let cid = (case client_id a of
                   None \<Rightarrow> ''device_sim_'' @ rnd
                 | Some c \<Rightarrow> if c \<noteq> [] then c else ''device_sim_'' @ rnd);
          registered =
            [ClientNew cid,
             UsernamePwSet (user a) (password a),
             WillSet (t_status a) (JObj [(''message'', JStr ''Offline'')]) 1 True];
          tls = (case cafile a of
                   None \<Rightarrow> [TlsSetContext]
                 | Some f \<Rightarrow> if f \<noteq> [] then [TlsSet f] else [TlsSetContext])
      in if \<not> tls_ok then Outcome registered (Some OSError)
         else if \<not> reachable then Outcome (registered @ tls) (Some OSError)
         else returns (registered @ tls @ [Connect (host a) (port a) 30, LoopStart]))"

text \<open>\<^verbatim>\<open>_on_connect\<close>, with the result code \<open>rc\<close> of the connection attempt.\<close>

definition on_connect :: "args \<Rightarrow> int \<Rightarrow> event list" where
  "on_connect a rc =
     (if rc = 0 then
        publish (t_status a) (JObj [(''message'', JStr ''Online'')]) 1 True
        @ publish (t_dev_status a) (JObj [(''message'', JStr ''Running'')]) 0 False
        @ map (\<lambda>(t, q). Subscribe t q) [(t_control a, 0), (t_device a, 0), (t_motor_ctrl a, 0)]
      else [])"

text \<open>\<^verbatim>\<open>_on_disconnect\<close> only prints.\<close>

definition on_disconnect :: "args \<Rightarrow> int \<Rightarrow> event list" where
  "on_disconnect a rc = []"

text \<open>
  \<^verbatim>\<open>run_forever\<close> sleeps one second at a time until \<^verbatim>\<open>KeyboardInterrupt\<close> arrives; \<open>n\<close>
  is the number of sleeps completed before that. \<open>has_client\<close> is
  \<^verbatim>\<open>self.client is not None\<close>.
\<close>

definition run_forever :: "bool \<Rightarrow> nat \<Rightarrow> event list" where
  "run_forever has_client n =
     replicate n (Sleep 1) @ (if has_client then [LoopStop, Disconnect] else [])"

text \<open>
  The callbacks the network loop may invoke while \<^verbatim>\<open>run_forever\<close> sleeps, each with
  the arguments it is called with (for a message, also the two random draws).
\<close>

datatype callback =
    OnConnect int
  | OnMessage real real string string
  | OnDisconnect int

fun fire :: "pylib \<Rightarrow> args \<Rightarrow> callback \<Rightarrow> event list" where
  "fire L a (OnConnect rc) = on_connect a rc"
| "fire L a (OnMessage u v topic payload) = trace (on_message L a u v topic payload)"
| "fire L a (OnDisconnect rc) = on_disconnect a rc"

text \<open>
  \<^verbatim>\<open>main\<close>: \<^verbatim>\<open>connect\<close>, then \<^verbatim>\<open>run_forever\<close>. The events of a whole run are those of
  \<^verbatim>\<open>connect\<close>, of the callbacks fired during the run and of \<^verbatim>\<open>run_forever\<close>; the
  callbacks' events are listed before the shutdown's.
\<close>

definition main ::
  "pylib \<Rightarrow> args \<Rightarrow> string \<Rightarrow> bool \<Rightarrow> bool \<Rightarrow> callback list \<Rightarrow> nat \<Rightarrow> event list" where
  "main L a rnd tls_ok reachable cbs n =
     (case connect a rnd tls_ok reachable of
        Outcome evs (Some e) \<Rightarrow> evs
      | Outcome evs None \<Rightarrow> evs @ concat (map (fire L a) cbs) @ run_forever True n)"

section \<open>Notions used to state the properties\<close>

text \<open>\<^verbatim>\<open>d.get(k)\<close> on a dict: the value stored under the key, \<^verbatim>\<open>None\<close> when there is none.\<close>

definition field :: "(string \<times> json) list \<Rightarrow> string \<Rightarrow> json" where
  "field kvs k = (case map_of kvs k of None \<Rightarrow> JNull | Some v \<Rightarrow> v)"

fun is_str :: "json \<Rightarrow> bool" where
  "is_str (JStr s) = True"
| "is_str _ = False"

text \<open>The characters of a string value; the empty text for every other value.\<close>

fun text_of :: "json \<Rightarrow> string" where
  "text_of (JStr s) = s"
| "text_of _ = []"

text \<open>
  The values on which \<^verbatim>\<open>(x or "").upper()\<close> does not raise: a string, or a value that
  \<^verbatim>\<open>or\<close> replaces by the empty string (\<^verbatim>\<open>None\<close>, \<^verbatim>\<open>false\<close>, zero, an empty array or
  object).
\<close>

definition str_or_falsy :: "json \<Rightarrow> bool" where
  "str_or_falsy x = (is_str x \<or> \<not> truthy x)"

text \<open>The duration \<^verbatim>\<open>_sleep_latency\<close> passes to \<^verbatim>\<open>time.sleep\<close>.\<close>

definition delay :: "args \<Rightarrow> real \<Rightarrow> real" where
  "delay a v = max 0 (latency a) + uniform 0 (max 0 (random_lag a)) v"

text \<open>The three handlers as one family, with the fields each one calls a string method on.\<close>

datatype handler = Pivot | Device | Motor string

fun handle :: "pylib \<Rightarrow> args \<Rightarrow> real \<Rightarrow> real \<Rightarrow> handler \<Rightarrow> json \<Rightarrow> outcome" where
  "handle L a u v Pivot d = handle_pivot_cmd L a u v d"
| "handle L a u v Device d = handle_device_cmd L a u v d"
| "handle L a u v (Motor motor_id) d = handle_motor_cmd L a u v motor_id d"




fun is_publish :: "event \<Rightarrow> bool" where
  "is_publish (Publish t obj q r) = True"
| "is_publish _ = False"

text \<open>An event that carries an object whose \<^verbatim>\<open>message\<close> is \<^verbatim>\<open>Offline\<close>.\<close>

definition says_offline :: "json \<Rightarrow> bool" where
  "says_offline obj = (py_get obj ''message'' JNull = Inr (JStr ''Offline''))"

fun mentions_offline :: "event \<Rightarrow> bool" where
  "mentions_offline (Publish t obj q r) = says_offline obj"
| "mentions_offline (WillSet t obj q r) = says_offline obj"
| "mentions_offline _ = False"

text \<open>The value the callback binds to \<^verbatim>\<open>data\<close>, \<open>None\<close> when it returns at \<^verbatim>\<open>except\<close>.\<close>

definition parse_payload :: "pylib \<Rightarrow> string \<Rightarrow> json option" where
  "parse_payload L payload =
     (let text = utf8_decode L payload in json_loads L (if text = [] then ''{}'' else text))"

text \<open>The defaults of \<^verbatim>\<open>parse_args\<close>, for the three required options given.\<close>

definition default_args :: "string \<Rightarrow> string \<Rightarrow> string \<Rightarrow> args" where
  "default_args farm usr pw =
     \<lparr>host = ''o7fd7307.ala.us-east-1.emqxsl.com'', port = 8883, farm_id = farm,
      user = usr, password = pw, latency = 1, random_lag = 0, drop_rate = 0,
      motor_fail = False, cafile = None, client_id = None\<rparr>"

text \<open>
  Concrete runs need the library at concrete arguments. \<open>sample_lib\<close> gives the values
  of the library functions on the arguments the runs below use: ASCII payloads decode to
  themselves, \<^verbatim>\<open>json.loads\<close> is given on four texts, the string methods are given on ASCII
  text (case mapping of the ASCII letters; stripping of TAB, LF, VT, FF, CR, FS, GS, RS,
  US and the space), and \<^verbatim>\<open>time.sleep\<close> accepts a duration whose nanoseconds fit the
  64-bit clock. It is used at such arguments only.
\<close>

definition ascii_upper :: "string \<Rightarrow> string" where
  "ascii_upper s =
     map (\<lambda>c. case map_of (zip ''abcdefghijklmnopqrstuvwxyz'' ''ABCDEFGHIJKLMNOPQRSTUVWXYZ'') c of
                 None \<Rightarrow> c | Some C \<Rightarrow> C) s"

definition ascii_lower :: "string \<Rightarrow> string" where
  "ascii_lower s =
     map (\<lambda>c. case map_of (zip ''ABCDEFGHIJKLMNOPQRSTUVWXYZ'' ''abcdefghijklmnopqrstuvwxyz'') c of
                 None \<Rightarrow> c | Some C \<Rightarrow> C) s"

definition ascii_space :: "char \<Rightarrow> bool" where
  "ascii_space c = (c \<in> set [CHR 0x09, CHR 0x0A, CHR 0x0B, CHR 0x0C, CHR 0x0D,
                               CHR 0x1C, CHR 0x1D, CHR 0x1E, CHR 0x1F, CHR '' ''])"

definition ascii_strip :: "string \<Rightarrow> string" where
  "ascii_strip s = rev (dropWhile ascii_space (rev (dropWhile ascii_space s)))"

definition motor_start_upper :: string where
  "motor_start_upper = ''{\"type\":\"MOTOR_CMD\",\"corr\":\"c1\",\"command\":\"START_MOTOR\"}''"

definition motor_start_lower :: string where
  "motor_start_lower = ''{\"type\":\"MOTOR_CMD\",\"corr\":\"c1\",\"command\":\"start_motor\"}''"

definition sample_lib :: pylib where
  "sample_lib =
     \<lparr>utf8_decode = (\<lambda>payload. payload),
      json_loads = map_of
        [(''{}'', JObj []),
         (''[]'', JArr []),
         (motor_start_upper,
          JObj [(''type'', JStr ''MOTOR_CMD''), (''corr'', JStr ''c1''),
                (''command'', JStr ''START_MOTOR'')]),
         (motor_start_lower,
          JObj [(''type'', JStr ''MOTOR_CMD''), (''corr'', JStr ''c1''),
                (''command'', JStr ''start_motor'')])],
      str_upper = ascii_upper,
      str_lower = ascii_lower,
      str_strip = ascii_strip,
      time_sleep = (\<lambda>secs. if secs < 0 then Some ValueError
                             else if secs * 1000000000 < 2 ^ 63 then None
                             else Some OverflowError)\<rparr>"

section \<open>Normal forms of the handlers\<close>

lemma delay_eq: "delay a v = max 0 (latency a) + max 0 (random_lag a) * v"
  by (simp add: delay_def uniform_def)

lemma sleep_latency_eq:
  "sleep_latency L a v =
     (case time_sleep L (delay a v) of None \<Rightarrow> Inr [Sleep (delay a v)] | Some e \<Rightarrow> Inl e)"
  unfolding sleep_latency_def delay_def Let_def by (rule refl)

lemma py_get_dict: "py_get (JObj kvs) k JNull = Inr (field kvs k)"
  by (simp add: field_def)

lemma py_get_not_dict: "(\<nexists>kvs. d = JObj kvs) \<Longrightarrow> py_get d k dflt = Inl AttributeError"
  by (cases d) auto

lemma str_method_or:
  "str_or_falsy x \<Longrightarrow> str_method f (py_or x (JStr '''')) = Inr (f (text_of x))"
  by (cases x) (auto simp: str_or_falsy_def py_or_def)

lemma str_method_or_bad:
  "\<not> str_or_falsy x \<Longrightarrow> str_method f (py_or x (JStr '''')) = Inl AttributeError"
  by (cases x) (auto simp: str_or_falsy_def py_or_def)

lemma pivot_dict:
  "handle_pivot_cmd L a u v (JObj kvs) =
     (if maybe_drop a u then Outcome [] None
      else case time_sleep L (delay a v) of
        Some e \<Rightarrow> Outcome [] (Some e)
      | None \<Rightarrow>
         (case (case map_of kvs ''run'' of None \<Rightarrow> JStr '''' | Some r \<Rightarrow> r) of
            JStr s \<Rightarrow> Outcome [Sleep (delay a v), Publish (t_ack a)
               (JObj [(''corr'', py_or (field kvs ''corr'') (JStr '''')), (''ok'', JBool True),
                      (''note'', JStr (''pivot '' @ str_lower L s @ '' accepted''))]) 0 False]
               None
          | _ \<Rightarrow> Outcome [Sleep (delay a v)] (Some AttributeError)))"
  by (simp add: handle_pivot_cmd_def attempt_def returns_def publish_def field_def Let_def
      sleep_latency_eq split: option.splits json.splits)

lemma device_dict:
  "handle_device_cmd L a u v (JObj kvs) =
     (if \<not> (str_or_falsy (field kvs ''action'') \<and> str_or_falsy (field kvs ''serial''))
      then Outcome [] (Some AttributeError)
      else if maybe_drop a u then Outcome [] None
      else case time_sleep L (delay a v) of
        Some e \<Rightarrow> Outcome [] (Some e)
      | None \<Rightarrow>
         (if str_upper L (text_of (field kvs ''action'')) = [] \<or>
             str_strip L (text_of (field kvs ''serial'')) = []
          then Outcome [Sleep (delay a v), Publish (t_err a)
               (JObj [(''corr'', py_or (field kvs ''corr'') (JStr '''')), (''ok'', JBool False),
                      (''reason'', JStr ''missing action/serial'')]) 0 False] None
          else Outcome [Sleep (delay a v), Publish (t_ack a)
               (JObj [(''corr'', py_or (field kvs ''corr'') (JStr '''')), (''ok'', JBool True),
                      (''note'', JStr (str_upper L (text_of (field kvs ''action'')) @ '' ok''))])
               0 False] None))"
  unfolding handle_device_cmd_def py_get_dict
  by (cases "str_or_falsy (field kvs ''action'')"; cases "str_or_falsy (field kvs ''serial'')")
     (simp_all add: attempt_def returns_def publish_def Let_def str_method_or str_method_or_bad
       sleep_latency_eq split: option.splits)

lemma motor_dict:
  "handle_motor_cmd L a u v m (JObj kvs) =
     (if \<not> str_or_falsy (field kvs ''command'') then Outcome [] (Some AttributeError)
      else if maybe_drop a u then Outcome [] None
      else case time_sleep L (delay a v) of
        Some e \<Rightarrow> Outcome [] (Some e)
      | None \<Rightarrow>
         (if motor_fail a \<and> str_upper L (text_of (field kvs ''command'')) = ''START_MOTOR''
          then Outcome [Sleep (delay a v),
               Publish (''farm/'' @ farm_id a @ ''/motor/'' @ m @ ''/err'')
                 (JObj [(''corr'', py_or (field kvs ''corr'') (JStr '''')), (''ok'', JBool False),
                        (''reason'', JStr ''sim motor fault'')]) 0 False] None
          else Outcome [Sleep (delay a v),
               Publish (''farm/'' @ farm_id a @ ''/motor/'' @ m @ ''/ack'')
                 (JObj [(''corr'', py_or (field kvs ''corr'') (JStr '''')), (''ok'', JBool True),
                        (''note'', JStr ''sim motor ok'')]) 0 False] None))"
  unfolding handle_motor_cmd_def py_get_dict
  by (cases "str_or_falsy (field kvs ''command'')")
     (simp_all add: attempt_def returns_def publish_def Let_def str_method_or str_method_or_bad
       sleep_latency_eq split: option.splits)

lemma handle_not_dict:
  "(\<nexists>kvs. d = JObj kvs) \<Longrightarrow> handle L a u v h d = Outcome [] (Some AttributeError)"
  by (cases h)
     (simp_all add: handle_pivot_cmd_def handle_device_cmd_def handle_motor_cmd_def attempt_def
       py_get_not_dict)





text \<open>Every object a handler publishes carries the correlation token after \<^verbatim>\<open>or ""\<close>.\<close>

lemma handle_publish_corr:
  assumes "Publish t obj q r \<in> set (trace (handle L a u v h (JObj kvs)))"
  shows "\<exists>b k s. obj = JObj [(''corr'', py_or (field kvs ''corr'') (JStr '''')),
                              (''ok'', JBool b), (k, JStr s)] \<and> k \<noteq> ''corr''"
  using assms
  by (cases h)
     (auto simp: pivot_dict device_dict motor_dict
       split: if_splits option.splits json.splits)


section \<open>Routing\<close>





lemma on_message_parsed:
  "on_message L a u v topic payload =
     (case parse_payload L payload of
        None \<Rightarrow> Outcome [] None
      | Some data \<Rightarrow>
          attempt (if topic = t_control a then type_is data ''PIVOT_CMD'' else Inr False) []
            (\<lambda>is_pivot.
              if is_pivot then handle_pivot_cmd L a u v data
              else
                attempt (if topic = t_device a then type_is data ''DEVICE_CMD'' else Inr False) []
                  (\<lambda>is_device.
                    if is_device then handle_device_cmd L a u v data
                    else
                      (case re_motor_match a topic of
                         None \<Rightarrow> Outcome [] None
                       | Some motor_id \<Rightarrow>
                           attempt (type_is data ''MOTOR_CMD'') [] (\<lambda>is_motor.
                             if is_motor then handle_motor_cmd L a u v motor_id data
                             else Outcome [] None)))))"
  unfolding on_message_def parse_payload_def returns_def Let_def by (rule refl)

lemma type_is_dict: "type_is (JObj kvs) name = Inr (field kvs ''type'' = JStr name)"
  by (simp add: type_is_def field_def)



text \<open>
  What the callback does with a payload that does not parse, and with one that parses
  to an object: at most one handler runs, chosen by the topic and the \<^verbatim>\<open>type\<close> field.
\<close>

lemma on_message_unparsed:
  "parse_payload L payload = None \<Longrightarrow> on_message L a u v topic payload = Outcome [] None"
  by (simp add: on_message_parsed)

lemma on_message_dispatch:
  "parse_payload L payload = Some (JObj kvs) \<Longrightarrow>
   on_message L a u v topic payload =
     (if topic = t_control a \<and> field kvs ''type'' = JStr ''PIVOT_CMD''
      then handle_pivot_cmd L a u v (JObj kvs)
      else if topic = t_device a \<and> field kvs ''type'' = JStr ''DEVICE_CMD''
      then handle_device_cmd L a u v (JObj kvs)
      else case re_motor_match a topic of
             None \<Rightarrow> Outcome [] None
           | Some motor_id \<Rightarrow>
               if field kvs ''type'' = JStr ''MOTOR_CMD''
               then handle_motor_cmd L a u v motor_id (JObj kvs)
               else Outcome [] None)"
  by (simp add: on_message_parsed attempt_def type_is_dict split: option.splits)

lemma on_message_trace:
  "trace (on_message L a u v topic payload) = [] \<or>
   (\<exists>h d. trace (on_message L a u v topic payload) = trace (handle L a u v h d))"
proof -
  have p: "\<And>d. \<exists>h d'. trace (handle_pivot_cmd L a u v d) = trace (handle L a u v h d')"
    by (metis handle.simps(1))
  have q: "\<And>d. \<exists>h d'. trace (handle_device_cmd L a u v d) = trace (handle L a u v h d')"
    by (metis handle.simps(2))
  have r: "\<And>m d. \<exists>h d'. trace (handle_motor_cmd L a u v m d) = trace (handle L a u v h d')"
    by (metis handle.simps(3))
  show ?thesis
    unfolding on_message_parsed attempt_def
    using p q r by (auto split: option.splits sum.splits)
qed

section \<open>No event of a callback mentions Offline\<close>

lemma handle_never_offline: "filter mentions_offline (trace (handle L a u v h d)) = []"
proof (cases "\<exists>kvs. d = JObj kvs")
  case True
  then obtain kvs where d: "d = JObj kvs" by blast
  show ?thesis unfolding d
    by (cases h)
       (simp_all add: pivot_dict device_dict motor_dict says_offline_def
         split: option.splits json.splits)
next
  case False
  then show ?thesis by (simp add: handle_not_dict)
qed

lemma fire_never_offline: "filter mentions_offline (fire L a cb) = []"
proof (cases cb)
  case (OnConnect rc)
  then show ?thesis by (simp add: on_connect_def publish_def says_offline_def)
next
  case (OnMessage u v topic payload)
  then show ?thesis
    using on_message_trace [of L a u v topic payload] handle_never_offline [of L a u v]
    by auto
next
  case (OnDisconnect rc)
  then show ?thesis by (simp add: on_disconnect_def)
qed

lemma callbacks_never_offline: "filter mentions_offline (concat (map (fire L a) cbs)) = []"
  by (induction cbs) (simp_all add: fire_never_offline)

section \<open>Presence on connection\<close>

text \<open>
  C7. On a successful connection (result code 0) the device publishes
  \<^verbatim>\<open>{"message":"Online"}\<close> retained with QoS 1 to \<^verbatim>\<open>farm/<F>/status\<close>, then
  \<^verbatim>\<open>{"message":"Running"}\<close> not retained with QoS 0 to \<^verbatim>\<open>farm/<F>/device/status\<close>, then
  subscribes to the global control topic, the global device topic and the wildcard
  per-motor control topic, in this order and with nothing else in between.
\<close>

theorem on_connect_presence_then_subscriptions:
  "on_connect a 0 =
     [Publish (''farm/'' @ farm_id a @ ''/status'') (JObj [(''message'', JStr ''Online'')]) 1 True,
      Publish (''farm/'' @ farm_id a @ ''/device/status'')
        (JObj [(''message'', JStr ''Running'')]) 0 False,
      Subscribe (''farm/'' @ farm_id a @ ''/control'') 0,
      Subscribe (''farm/'' @ farm_id a @ ''/device'') 0,
      Subscribe (''farm/'' @ farm_id a @ ''/motor/+/control'') 0]"
  by (simp add: on_connect_def publish_def t_status_def t_dev_status_def t_control_def
      t_device_def t_motor_ctrl_def)

section \<open>Drop, delay and the single reply\<close>




section \<open>The correlation token\<close>

text \<open>
  C2, as amended. For each of the three handlers, every message published for an
  inbound command carries a \<^verbatim>\<open>corr\<close> equal to the inbound \<^verbatim>\<open>corr\<close> whenever that value is
  truthy (in particular every non-empty string); an inbound \<^verbatim>\<open>corr\<close> that is absent,
  \<^verbatim>\<open>null\<close> or otherwise falsy (the empty string, \<^verbatim>\<open>false\<close>, zero, an empty array or
  object) is published as the empty string.
\<close>

theorem corr_echoed_unless_falsy:
  assumes "Publish t obj q r \<in> set (trace (handle L a u v h (JObj kvs)))"
  shows "py_get obj ''corr'' JNull =
           Inr (if truthy (field kvs ''corr'') then field kvs ''corr'' else JStr '''')"
proof -
  from handle_publish_corr [OF assms] obtain b k s where
    "obj = JObj [(''corr'', py_or (field kvs ''corr'') (JStr '''')), (''ok'', JBool b), (k, JStr s)]"
    by blast
  then show ?thesis by (simp add: py_or_def)
qed

theorem corr_echoed_unless_falsy_witness:
  "Publish ''farm/F1/motor/M7/ack''
       (JObj [(''corr'', JStr ''abc123''), (''ok'', JBool True), (''note'', JStr ''sim motor ok'')])
       0 False
     \<in> set (trace (handle sample_lib (default_args ''F1'' ''sim'' ''pw'') (1/2) 0 (Motor ''M7'')
          (JObj [(''type'', JStr ''MOTOR_CMD''), (''corr'', JStr ''abc123''),
                 (''command'', JStr ''STOP_MOTOR'')])))
   \<and> py_get (JObj [(''corr'', JStr ''abc123''), (''ok'', JBool True),
                    (''note'', JStr ''sim motor ok'')]) ''corr'' JNull
      = Inr (field [(''type'', JStr ''MOTOR_CMD''), (''corr'', JStr ''abc123''),
                    (''command'', JStr ''STOP_MOTOR'')] ''corr'')"
  using corr_echoed_unless_falsy
      [of "''farm/F1/motor/M7/ack''"
          "JObj [(''corr'', JStr ''abc123''), (''ok'', JBool True), (''note'', JStr ''sim motor ok'')]"
          0 False sample_lib "default_args ''F1'' ''sim'' ''pw''" "1/2" 0 "Motor ''M7''"
          "[(''type'', JStr ''MOTOR_CMD''), (''corr'', JStr ''abc123''),
            (''command'', JStr ''STOP_MOTOR'')]"]
  by (simp add: default_args_def maybe_drop_def motor_dict field_def str_or_falsy_def
      delay_eq sample_lib_def py_or_def ascii_upper_def)

text \<open>
  The claim as first stated fails on an inbound \<^verbatim>\<open>corr\<close> of 0: the reply carries the
  empty string, not the number.
\<close>

theorem corr_zero_published_as_empty_string:
  "handle_pivot_cmd sample_lib (default_args ''F1'' ''sim'' ''pw'') (1/2) 0
        (JObj [(''type'', JStr ''PIVOT_CMD''), (''corr'', JInt 0), (''run'', JStr ''START'')])
      = Outcome [Sleep 1,
                 Publish ''farm/F1/ack''
                   (JObj [(''corr'', JStr ''''), (''ok'', JBool True),
                          (''note'', JStr ''pivot start accepted'')]) 0 False] None
   \<and> JStr '''' \<noteq> JInt 0"
  by (simp add: default_args_def maybe_drop_def pivot_dict delay_eq sample_lib_def field_def
      py_or_def t_ack_def ascii_lower_def)

text \<open>
  C9, as amended. For each of the three handlers, every published object has a \<^verbatim>\<open>corr\<close>
  field. It is the empty string when the inbound \<^verbatim>\<open>corr\<close> is absent, \<^verbatim>\<open>null\<close> or otherwise
  falsy, and it is a string whenever the inbound \<^verbatim>\<open>corr\<close> is a string or falsy; a
  truthy inbound \<^verbatim>\<open>corr\<close> that is not a string is passed on as it is.
\<close>

theorem falsy_corr_becomes_empty_string:
  assumes "Publish t obj q r \<in> set (trace (handle L a u v h (JObj kvs)))"
  shows "(\<exists>fields c. obj = JObj fields \<and> map_of fields ''corr'' = Some c)
         \<and> (\<not> truthy (field kvs ''corr'') \<longrightarrow> py_get obj ''corr'' JNull = Inr (JStr ''''))
         \<and> (str_or_falsy (field kvs ''corr'') \<longrightarrow>
              (\<exists>s. py_get obj ''corr'' JNull = Inr (JStr s)))
         \<and> (truthy (field kvs ''corr'') \<longrightarrow>
              py_get obj ''corr'' JNull = Inr (field kvs ''corr''))"
proof -
  from handle_publish_corr [OF assms] obtain b k s where
    obj: "obj = JObj [(''corr'', py_or (field kvs ''corr'') (JStr '''')), (''ok'', JBool b), (k, JStr s)]"
    by blast
  have "str_or_falsy (field kvs ''corr'') \<Longrightarrow> \<exists>s. py_or (field kvs ''corr'') (JStr '''') = JStr s"
    by (cases "field kvs ''corr''") (auto simp: str_or_falsy_def py_or_def)
  then show ?thesis unfolding obj by (auto simp: py_or_def)
qed

theorem falsy_corr_becomes_empty_string_witness:
  "Publish ''farm/F1/err''
       (JObj [(''corr'', JStr ''''), (''ok'', JBool False),
              (''reason'', JStr ''missing action/serial'')]) 0 False
     \<in> set (trace (handle sample_lib (default_args ''F1'' ''sim'' ''pw'') (1/2) 0 Device
          (JObj [(''type'', JStr ''DEVICE_CMD''), (''corr'', JNull)])))
   \<and> \<not> truthy (field [(''type'', JStr ''DEVICE_CMD''), (''corr'', JNull)] ''corr'')
   \<and> str_or_falsy (field [(''type'', JStr ''DEVICE_CMD''), (''corr'', JNull)] ''corr'')
   \<and> py_get (JObj [(''corr'', JStr ''''), (''ok'', JBool False),
                    (''reason'', JStr ''missing action/serial'')]) ''corr'' JNull
      = Inr (JStr '''')
   \<and> truthy (field [(''type'', JStr ''DEVICE_CMD''), (''corr'', JStr ''k9'')] ''corr'')
   \<and> Publish ''farm/F1/err''
       (JObj [(''corr'', JStr ''k9''), (''ok'', JBool False),
              (''reason'', JStr ''missing action/serial'')]) 0 False
     \<in> set (trace (handle sample_lib (default_args ''F1'' ''sim'' ''pw'') (1/2) 0 Device
          (JObj [(''type'', JStr ''DEVICE_CMD''), (''corr'', JStr ''k9'')])))"
  using falsy_corr_becomes_empty_string
      [of "''farm/F1/err''"
          "JObj [(''corr'', JStr ''''), (''ok'', JBool False),
                 (''reason'', JStr ''missing action/serial'')]"
          0 False sample_lib "default_args ''F1'' ''sim'' ''pw''" "1/2" 0 Device
          "[(''type'', JStr ''DEVICE_CMD''), (''corr'', JNull)]"]
    falsy_corr_becomes_empty_string
      [of "''farm/F1/err''"
          "JObj [(''corr'', JStr ''k9''), (''ok'', JBool False),
                 (''reason'', JStr ''missing action/serial'')]"
          0 False sample_lib "default_args ''F1'' ''sim'' ''pw''" "1/2" 0 Device
          "[(''type'', JStr ''DEVICE_CMD''), (''corr'', JStr ''k9'')]"]
  by (simp add: default_args_def maybe_drop_def device_dict field_def str_or_falsy_def
      delay_eq sample_lib_def py_or_def ascii_upper_def ascii_strip_def t_err_def)

text \<open>
  The second half of the claim as first stated fails on an inbound \<^verbatim>\<open>corr\<close> of 5: the
  reply carries the number, which is not a string.
\<close>

theorem numeric_corr_published_as_number:
  "handle_motor_cmd sample_lib (default_args ''F1'' ''sim'' ''pw'') (1/2) 0 ''M7''
        (JObj [(''type'', JStr ''MOTOR_CMD''), (''corr'', JInt 5),
               (''command'', JStr ''STOP_MOTOR'')])
      = Outcome [Sleep 1,
                 Publish ''farm/F1/motor/M7/ack''
                   (JObj [(''corr'', JInt 5), (''ok'', JBool True),
                          (''note'', JStr ''sim motor ok'')]) 0 False] None
   \<and> \<not> is_str (JInt 5)"
  by (simp add: default_args_def maybe_drop_def motor_dict delay_eq sample_lib_def field_def
      py_or_def str_or_falsy_def ascii_upper_def)

section \<open>Device commands\<close>




section \<open>Pivot commands\<close>




section \<open>Motor commands\<close>




section \<open>The message callback\<close>

text \<open>
  C5. The callback is not total: a payload that is valid JSON but not an object, such
  as \<^verbatim>\<open>[]\<close>, arriving on the global control topic makes \<^verbatim>\<open>data.get\<close> raise
  \<^verbatim>\<open>AttributeError\<close>, which leaves the callback.
\<close>

theorem on_message_raises_on_json_array:
  "on_message sample_lib (default_args ''F1'' ''sim'' ''pw'') (1/2) 0 ''farm/F1/control'' ''[]''
     = Outcome [] (Some AttributeError)"
  by (simp add: on_message_parsed parse_payload_def sample_lib_def motor_start_upper_def
      motor_start_lower_def t_control_def default_args_def attempt_def type_is_def)

text \<open>
  C10. An empty payload decodes to the empty text, for which the callback parses
  \<^verbatim>\<open>{}\<close>; the empty object has no \<^verbatim>\<open>type\<close>, so on every topic the callback returns
  without an event and without an exception.
\<close>

theorem empty_payload_is_discarded:
  assumes "utf8_decode L [] = []" and "json_loads L ''{}'' = Some (JObj [])"
  shows "parse_payload L [] = Some (JObj [])
         \<and> on_message L a u v topic [] = Outcome [] None"
proof -
  have parsed: "parse_payload L [] = Some (JObj [])"
    using assms by (simp add: parse_payload_def)
  have "on_message L a u v topic [] = Outcome [] None"
    by (simp add: on_message_parsed parsed attempt_def type_is_dict field_def
        split: option.splits)
  with parsed show ?thesis by simp
qed

theorem empty_payload_is_discarded_witness:
  "utf8_decode sample_lib [] = [] \<and> json_loads sample_lib ''{}'' = Some (JObj [])
   \<and> parse_payload sample_lib [] = Some (JObj [])
   \<and> on_message sample_lib (default_args ''F1'' ''sim'' ''pw'') (1/2) 0 ''farm/F1/control'' []
       = Outcome [] None"
  using empty_payload_is_discarded
      [of sample_lib "default_args ''F1'' ''sim'' ''pw''" "1/2" 0 "''farm/F1/control''"]
  by (simp add: sample_lib_def)

section \<open>Offline only as the last will\<close>

text \<open>
  C8. In a whole run of the program, whether or not the TLS setup and the connection
  succeed, whatever callbacks fire and whenever the interrupt arrives, the only event
  that carries \<^verbatim>\<open>{"message": "Offline"}\<close> is the registration of the last will: no publish
  carries it. \<^verbatim>\<open>connect\<close> registers the will on \<^verbatim>\<open>farm/<F>/status\<close>, retained, with QoS 1,
  and no session is opened before that; when the TLS setup and \<^verbatim>\<open>client.connect\<close> return,
  the session is opened after it. On the interrupt, \<^verbatim>\<open>run_forever\<close> stops the loop and
  disconnects, and publishes nothing.
\<close>

theorem offline_only_as_last_will:
  "filter mentions_offline (main L a rnd tls_ok reachable cbs n)
     = [WillSet (''farm/'' @ farm_id a @ ''/status'')
          (JObj [(''message'', JStr ''Offline'')]) 1 True]
   \<and> filter is_publish (filter mentions_offline (main L a rnd tls_ok reachable cbs n)) = []
   \<and> (\<exists>pre post.
        trace (connect a rnd tls_ok reachable)
          = pre @ WillSet (''farm/'' @ farm_id a @ ''/status'')
                    (JObj [(''message'', JStr ''Offline'')]) 1 True # post
        \<and> (\<forall>h p k. Connect h p k \<notin> set pre)
        \<and> (tls_ok \<and> reachable \<longrightarrow> Connect (host a) (port a) 30 \<in> set post))
   \<and> run_forever True n = replicate n (Sleep 1) @ [LoopStop, Disconnect]
   \<and> filter is_publish (run_forever has_client n) = []"
proof -
  let ?will = "WillSet (''farm/'' @ farm_id a @ ''/status'')
                 (JObj [(''message'', JStr ''Offline'')]) 1 True"
  obtain cid where cid: "cid = (case client_id a of
                 None \<Rightarrow> ''device_sim_'' @ rnd
               | Some c \<Rightarrow> if c \<noteq> [] then c else ''device_sim_'' @ rnd)" by simp
  obtain tls where tls: "tls = (case cafile a of
               None \<Rightarrow> [TlsSetContext]
             | Some f \<Rightarrow> if f \<noteq> [] then [TlsSet f] else [TlsSetContext])" by simp
  define post where "post =
    (if \<not> tls_ok then []
     else if \<not> reachable then tls
     else tls @ [Connect (host a) (port a) 30, LoopStart])"
  have conn_trace: "trace (connect a rnd tls_ok reachable)
            = [ClientNew cid, UsernamePwSet (user a) (password a)] @ ?will # post"
    by (simp add: connect_def returns_def Let_def cid tls t_status_def post_def)
  have tls_quiet: "filter mentions_offline tls = []"
    by (simp add: tls split: option.splits)
  have post_quiet: "filter mentions_offline post = []"
    by (simp add: post_def tls_quiet)
  have conn: "filter mentions_offline (trace (connect a rnd tls_ok reachable)) = [?will]"
    by (simp add: conn_trace post_quiet says_offline_def)
  have shutdown: "filter mentions_offline (run_forever True n) = []"
    by (simp add: run_forever_def)
  have whole: "filter mentions_offline (main L a rnd tls_ok reachable cbs n) = [?will]"
  proof (cases "connect a rnd tls_ok reachable")
    case (Outcome evs exn)
    with conn have evs: "filter mentions_offline evs = [?will]" by simp
    show ?thesis
      by (cases exn) (simp_all add: main_def Outcome evs callbacks_never_offline shutdown)
  qed
  have order: "\<exists>pre post.
        trace (connect a rnd tls_ok reachable) = pre @ ?will # post
        \<and> (\<forall>h p k. Connect h p k \<notin> set pre)
        \<and> (tls_ok \<and> reachable \<longrightarrow> Connect (host a) (port a) 30 \<in> set post)"
  proof -
    have "\<forall>h p k. Connect h p k \<notin> set [ClientNew cid, UsernamePwSet (user a) (password a)]"
      by simp
    moreover have "tls_ok \<and> reachable \<longrightarrow> Connect (host a) (port a) 30 \<in> set post"
      by (simp add: post_def)
    ultimately show ?thesis using conn_trace by blast
  qed
  have quiet: "filter is_publish (run_forever has_client n) = []"
    by (simp add: run_forever_def)
  show ?thesis
    using whole order quiet by (simp add: run_forever_def)
qed

theorem offline_only_as_last_will_witness:
  "main sample_lib (default_args ''F1'' ''sim'' ''pw'') ''4711'' True True
       [OnConnect 0, OnMessage (1/2) 0 ''farm/F1/motor/M7/control'' motor_start_upper] 2
     = [ClientNew ''device_sim_4711'',
        UsernamePwSet ''sim'' ''pw'',
        WillSet ''farm/F1/status'' (JObj [(''message'', JStr ''Offline'')]) 1 True,
        TlsSetContext,
        Connect ''o7fd7307.ala.us-east-1.emqxsl.com'' 8883 30,
        LoopStart,
        Publish ''farm/F1/status'' (JObj [(''message'', JStr ''Online'')]) 1 True,
        Publish ''farm/F1/device/status'' (JObj [(''message'', JStr ''Running'')]) 0 False,
        Subscribe ''farm/F1/control'' 0,
        Subscribe ''farm/F1/device'' 0,
        Subscribe ''farm/F1/motor/+/control'' 0,
        Sleep 1,
        Publish ''farm/F1/motor/M7/ack''
          (JObj [(''corr'', JStr ''c1''), (''ok'', JBool True), (''note'', JStr ''sim motor ok'')])
          0 False,
        Sleep 1, Sleep 1, LoopStop, Disconnect]
   \<and> filter mentions_offline
        (main sample_lib (default_args ''F1'' ''sim'' ''pw'') ''4711'' True True
           [OnConnect 0, OnMessage (1/2) 0 ''farm/F1/motor/M7/control'' motor_start_upper] 2)
     = [WillSet ''farm/F1/status'' (JObj [(''message'', JStr ''Offline'')]) 1 True]"
proof -
  have run: "main sample_lib (default_args ''F1'' ''sim'' ''pw'') ''4711'' True True
       [OnConnect 0, OnMessage (1/2) 0 ''farm/F1/motor/M7/control'' motor_start_upper] 2
     = [ClientNew ''device_sim_4711'',
        UsernamePwSet ''sim'' ''pw'',
        WillSet ''farm/F1/status'' (JObj [(''message'', JStr ''Offline'')]) 1 True,
        TlsSetContext,
        Connect ''o7fd7307.ala.us-east-1.emqxsl.com'' 8883 30,
        LoopStart,
        Publish ''farm/F1/status'' (JObj [(''message'', JStr ''Online'')]) 1 True,
        Publish ''farm/F1/device/status'' (JObj [(''message'', JStr ''Running'')]) 0 False,
        Subscribe ''farm/F1/control'' 0,
        Subscribe ''farm/F1/device'' 0,
        Subscribe ''farm/F1/motor/+/control'' 0,
        Sleep 1,
        Publish ''farm/F1/motor/M7/ack''
          (JObj [(''corr'', JStr ''c1''), (''ok'', JBool True), (''note'', JStr ''sim motor ok'')])
          0 False,
        Sleep 1, Sleep 1, LoopStop, Disconnect]"
    by (simp add: main_def connect_def returns_def on_connect_def publish_def run_forever_def
        on_message_parsed parse_payload_def sample_lib_def motor_start_upper_def
        motor_start_lower_def t_status_def t_dev_status_def t_control_def t_device_def
        t_motor_ctrl_def re_motor_match_def attempt_def type_is_dict motor_dict field_def
        str_or_falsy_def default_args_def maybe_drop_def delay_eq py_or_def ascii_upper_def
        numeral_2_eq_2)
  show ?thesis
    using offline_only_as_last_will
      [of sample_lib "default_args ''F1'' ''sim'' ''pw''" "''4711''" True True
          "[OnConnect 0, OnMessage (1/2) 0 ''farm/F1/motor/M7/control'' motor_start_upper]" 2]
      run
    by (simp add: default_args_def)
qed

end
